theory Spec2Isabelle
  imports Main
begin

section \<open>JavaScript values\<close>

text \<open>
  The handlers of \<^verbatim>\<open>src/file.js\<close> read their input out of parsed JSON (the POST body) and
  out of the parsed query string. A value is one of the JSON shapes, \<^verbatim>\<open>undefined\<close> (what
  reading a missing property yields), or a member inherited from \<^verbatim>\<open>Object.prototype\<close>.

  Strings are kept as their UTF-8 bytes, so \<open>length\<close> is the byte length that
  \<^verbatim>\<open>Buffer.from(s)\<close> has. A number is kept as the text that JavaScript prints for it
  (\<^verbatim>\<open>String(n)\<close>); the program never computes with numbers. The list of an object holds its
  own properties in enumeration order, each key once.
\<close>

datatype jsval =
    JUndefined
  | JNull
  | JBool bool
  | JNum string
  | JStr string
  | JArr "jsval list"
  | JObj "(string \<times> jsval) list"
  | JBuiltin string

text \<open>
  Thrown values. The runtime throws \<^verbatim>\<open>TypeError\<close> and \<^verbatim>\<open>RangeError\<close> objects; the HTTP client
  and the generative-API client reject with \<^verbatim>\<open>Error\<close> objects of their own. Every one of
  them carries a \<^verbatim>\<open>message\<close>, which is all the program reads from a caught error.
\<close>

datatype js_error = TypeError string | RangeError string | ServiceError string

fun message :: "js_error \<Rightarrow> string" where
  "message (TypeError m) = m"
| "message (RangeError m) = m"
| "message (ServiceError m) = m"

text \<open>Truthiness, as \<^verbatim>\<open>if (v)\<close>, \<^verbatim>\<open>!v\<close> and \<^verbatim>\<open>v || w\<close> test it.\<close>

fun truthy :: "jsval \<Rightarrow> bool" where
  "truthy JUndefined = False"
| "truthy JNull = False"
| "truthy (JBool b) = b"
| "truthy (JNum n) = (n \<noteq> ''0'' \<and> n \<noteq> ''NaN'')"
| "truthy (JStr s) = (s \<noteq> [])"
| "truthy (JArr xs) = True"
| "truthy (JObj kvs) = True"
| "truthy (JBuiltin n) = True"

text \<open>
  \<^verbatim>\<open>a === b\<close> for two values that are not the same object: primitives compare by value,
  and two distinct arrays or objects are never equal.
\<close>

fun strict_equals :: "jsval \<Rightarrow> jsval \<Rightarrow> bool" where
  "strict_equals JUndefined JUndefined = True"
| "strict_equals JNull JNull = True"
| "strict_equals (JBool a) (JBool b) = (a = b)"
| "strict_equals (JNum a) (JNum b) = (a = b \<and> a \<noteq> ''NaN'')"
| "strict_equals (JStr a) (JStr b) = (a = b)"
| "strict_equals a b = False"

text \<open>The names every ordinary object inherits from \<^verbatim>\<open>Object.prototype\<close>.\<close>

definition object_prototype_names :: "string list" where
  "object_prototype_names =
     [''constructor'', ''__defineGetter__'', ''__defineSetter__'', ''hasOwnProperty'',
      ''__lookupGetter__'', ''__lookupSetter__'', ''isPrototypeOf'', ''propertyIsEnumerable'',
      ''toString'', ''valueOf'', ''__proto__'', ''toLocaleString'']"

text \<open>
  \<^verbatim>\<open>v.k\<close> and \<^verbatim>\<open>v[k]\<close>. Reading a property of \<^verbatim>\<open>undefined\<close> or \<^verbatim>\<open>null\<close> throws. An object
  answers with its own property, then with what it inherits. On strings, numbers, booleans and
  arrays the program reads only names that none of their prototypes define (\<^verbatim>\<open>sender\<close>,
  \<^verbatim>\<open>recipient\<close>, \<^verbatim>\<open>id\<close>, \<^verbatim>\<open>message\<close>, \<^verbatim>\<open>text\<close>, \<^verbatim>\<open>postback\<close>, \<^verbatim>\<open>payload\<close>, \<^verbatim>\<open>quick_reply\<close>,
  \<^verbatim>\<open>object\<close>, \<^verbatim>\<open>entry\<close>, \<^verbatim>\<open>messaging\<close>), so the answer there is \<^verbatim>\<open>undefined\<close>.
\<close>

fun get_prop :: "jsval \<Rightarrow> string \<Rightarrow> js_error + jsval" where
  "get_prop JUndefined k =
     Inl (TypeError (''Cannot read properties of undefined (reading '' @ [CHR 0x27] @ k @ [CHR 0x27] @ '')''))"
| "get_prop JNull k =
     Inl (TypeError (''Cannot read properties of null (reading '' @ [CHR 0x27] @ k @ [CHR 0x27] @ '')''))"
| "get_prop (JObj kvs) k =
     (case map_of kvs k of
        Some v \<Rightarrow> Inr v
      | None \<Rightarrow> if k \<in> set object_prototype_names then Inr (JBuiltin k) else Inr JUndefined)"
| "get_prop v k = Inr JUndefined"

text \<open>
  \<^verbatim>\<open>String(v)\<close>, which a template literal applies to each substitution and a computed property
  access applies to its key. An array joins its elements with commas, printing \<^verbatim>\<open>null\<close> and
  \<^verbatim>\<open>undefined\<close> elements as nothing. A data object prints as \<^verbatim>\<open>[object Object]\<close> through the
  inherited \<^verbatim>\<open>toString\<close>; when it has an own property named \<^verbatim>\<open>toString\<close> (never callable in
  parsed data) the conversion falls through to \<^verbatim>\<open>valueOf\<close>, gets no primitive, and throws.
\<close>

fun to_string :: "jsval \<Rightarrow> js_error + string"
and join_elems :: "jsval list \<Rightarrow> js_error + string" where
  "to_string JUndefined = Inr ''undefined''"
| "to_string JNull = Inr ''null''"
| "to_string (JBool b) = Inr (if b then ''true'' else ''false'')"
| "to_string (JNum n) = Inr n"
| "to_string (JStr s) = Inr s"
| "to_string (JArr xs) = join_elems xs"
| "to_string (JObj kvs) =
     (if map_of kvs ''toString'' \<noteq> None
      then Inl (TypeError ''Cannot convert object to primitive value'')
      else Inr ''[object Object]'')"
| "to_string (JBuiltin n) =
     Inr (if n = ''__proto__'' then ''[object Object]''
          else ''function '' @ (if n = ''constructor'' then ''Object'' else n) @ ''() { [native code] }'')"
| "join_elems [] = Inr []"
| "join_elems (x # xs) =
     (case (if x = JUndefined \<or> x = JNull then Inr [] else to_string x) of
        Inl e \<Rightarrow> Inl e
      | Inr s \<Rightarrow>
          if xs = [] then Inr s
          else (case join_elems xs of Inl e \<Rightarrow> Inl e | Inr r \<Rightarrow> Inr (s @ '','' @ r)))"

text \<open>A template literal: its constant parts and its substitutions, evaluated left to right.\<close>

datatype part = Lit string | Sub jsval

fun template :: "part list \<Rightarrow> js_error + string" where
  "template [] = Inr []"
| "template (Lit s # ps) =
     (case template ps of Inl e \<Rightarrow> Inl e | Inr r \<Rightarrow> Inr (s @ r))"
| "template (Sub v # ps) =
     (case to_string v of
        Inl e \<Rightarrow> Inl e
      | Inr s \<Rightarrow> (case template ps of Inl e \<Rightarrow> Inl e | Inr r \<Rightarrow> Inr (s @ r)))"

text \<open>
  What \<^verbatim>\<open>for (const x of v)\<close> runs over. An array yields its elements and a string its code
  points (a lead byte with the continuation bytes after it); nothing else that parsed data can
  hold is iterable. \<open>src\<close> is the source text of the iterated expression, which the engine
  quotes in the error.
\<close>

definition is_continuation :: "char \<Rightarrow> bool" where
  "is_continuation c = (128 \<le> (of_char c :: nat) \<and> (of_char c :: nat) < 192)"

function code_points :: "string \<Rightarrow> string list" where
  "code_points [] = []"
| "code_points (c # cs) =
     (c # takeWhile is_continuation cs) # code_points (dropWhile is_continuation cs)"
  by pat_completeness auto
termination
  by (relation "measure length") (auto simp: less_Suc_eq_le length_dropWhile_le)

definition iterate :: "string \<Rightarrow> jsval \<Rightarrow> js_error + jsval list" where
  "iterate src v =
     (case v of
        JArr xs \<Rightarrow> Inr xs
      | JStr s \<Rightarrow> Inr (map JStr (code_points s))
      | _ \<Rightarrow> Inl (TypeError (src @ '' is not iterable'')))"

section \<open>Configuration, collaborators, effects\<close>

text \<open>
  Lines 11-14: the values read from the environment once at start-up. An unset variable is
  \<^verbatim>\<open>undefined\<close>.
\<close>

record config =
  GEMINI_API_KEY :: "string option"
  FACEBOOK_VERIFY_TOKEN :: "string option"
  FACEBOOK_PAGE_ACCESS_TOKEN :: "string option"
  FACEBOOK_APP_SECRET :: "string option"

definition env_value :: "string option \<Rightarrow> jsval" where
  "env_value v = (case v of None \<Rightarrow> JUndefined | Some s \<Rightarrow> JStr s)"

text \<open>
  What the program does to the outside, in order: a log line (level and message; the level
  tag and the timestamp that the logger of lines 26-31 puts in front are left out), a prompt
  submitted to the generative API, a POST to the messaging platform (URL and payload).
\<close>

datatype level = INFO | ERROR | SUCCESS | WARN

datatype effect =
    Log level string
  | GenerateContent string
  | AxiosPost string jsval

text \<open>
  The libraries the program calls and that are not part of it. The two remote services answer
  as they please, call by call: each takes the state \<open>'w\<close> of the outside world and returns
  the next one.
  \<^item> \<open>generateContent\<close>: lines 142-144 as one call, from the prompt to the trimmed response
    text, or the error raised on the way (line 132 only builds the client object);
  \<^item> \<open>axios_post\<close>: \<^verbatim>\<open>axios.post(url, payload)\<close>, the response status or the rejection;
  \<^item> \<open>hmac_sha256_hex\<close>: \<^verbatim>\<open>crypto.createHmac('sha256', key).update(data).digest('hex')\<close>;
  \<^item> \<open>JSON_stringify\<close>: \<^verbatim>\<open>JSON.stringify(v, null, indent)\<close>, \<open>None\<close> for \<^verbatim>\<open>undefined\<close>;
  \<^item> \<open>body_parser\<close>: the parsers of lines 21-22, from the request headers and the raw body
    to \<^verbatim>\<open>req.body\<close>, or the parse error.
\<close>

record 'w services =
  generateContent :: "string \<Rightarrow> 'w \<Rightarrow> (js_error + string) \<times> 'w"
  axios_post :: "string \<Rightarrow> jsval \<Rightarrow> 'w \<Rightarrow> (js_error + nat) \<times> 'w"
  hmac_sha256_hex :: "string \<Rightarrow> string \<Rightarrow> string"
  JSON_stringify :: "jsval \<Rightarrow> nat \<Rightarrow> string option"
  body_parser :: "(string \<rightharpoonup> string) \<Rightarrow> string \<Rightarrow> js_error + jsval"

record 'w state =
  world :: 'w
  trace :: "effect list"

definition logger :: "level \<Rightarrow> string \<Rightarrow> 'w state \<Rightarrow> 'w state" where
  "logger l msg st = st\<lparr>trace := trace st @ [Log l msg]\<rparr>"

text \<open>
  \<^verbatim>\<open>try { body } catch (error) { handler }\<close> over a computation that returns a value or
  throws, and leaves a state behind either way.
\<close>

definition try_catch ::
  "('s \<Rightarrow> (js_error + 'a) \<times> 's) \<Rightarrow> (js_error \<Rightarrow> 's \<Rightarrow> (js_error + 'a) \<times> 's) \<Rightarrow>
   's \<Rightarrow> (js_error + 'a) \<times> 's" where
  "try_catch body handler st =
     (case body st of
        (Inl error, st') \<Rightarrow> handler error st'
      | (Inr v, st') \<Rightarrow> (Inr v, st'))"

text \<open>
  Sequencing. \<open>eval\<close> continues with the value of an expression, unless evaluating it threw;
  \<open>exec\<close> does the same for a step that also changes the state (an awaited call);
  \<open>returns\<close> ends normally.
\<close>

definition eval ::
  "js_error + 'a \<Rightarrow> ('a \<Rightarrow> 's \<Rightarrow> (js_error + 'b) \<times> 's) \<Rightarrow> 's \<Rightarrow> (js_error + 'b) \<times> 's" where
  "eval r k st = (case r of Inl e \<Rightarrow> (Inl e, st) | Inr v \<Rightarrow> k v st)"

definition exec ::
  "('s \<Rightarrow> (js_error + 'a) \<times> 's) \<Rightarrow> ('a \<Rightarrow> 's \<Rightarrow> (js_error + 'b) \<times> 's) \<Rightarrow>
   's \<Rightarrow> (js_error + 'b) \<times> 's" where
  "exec m k st = (case m st of (Inl e, st1) \<Rightarrow> (Inl e, st1) | (Inr v, st1) \<Rightarrow> k v st1)"

definition returns :: "'a \<Rightarrow> 's \<Rightarrow> (js_error + 'a) \<times> 's" where
  "returns v st = (Inr v, st)"

section \<open>Requests and responses\<close>

text \<open>
  \<^verbatim>\<open>req.headers\<close> (names in lower case), \<^verbatim>\<open>req.query\<close>, \<^verbatim>\<open>req.body\<close> and \<^verbatim>\<open>req.rawBody\<close>, which
  is \<^verbatim>\<open>undefined\<close> unless a middleware has set it. A response is the status and the value
  handed to \<^verbatim>\<open>res.send\<close>.
\<close>

record request =
  headers :: "string \<rightharpoonup> string"
  query :: "string \<rightharpoonup> jsval"
  body :: jsval
  rawBody :: "string option"

record response =
  status :: nat
  sent :: jsval

definition query_param :: "request \<Rightarrow> string \<Rightarrow> jsval" where
  "query_param req k = (case query req k of None \<Rightarrow> JUndefined | Some v \<Rightarrow> v)"

section \<open>Webhook verification: GET /webhook (lines 35-50)\<close>

definition get_webhook :: "config \<Rightarrow> request \<Rightarrow> 'w state \<Rightarrow> response \<times> 'w state" where
  "get_webhook cfg req st =
     (let verifyToken = query_param req ''hub.verify_token'';
          challenge = query_param req ''hub.challenge''
      in if strict_equals verifyToken (env_value (FACEBOOK_VERIFY_TOKEN cfg))
         then (\<lparr>status = 200, sent = challenge\<rparr>,
               logger SUCCESS ''Webhook verified successfully'' st)
         else (\<lparr>status = 403, sent = JStr ''Invalid verification token''\<rparr>,
               logger ERROR ''Webhook verification failed'' st))"

section \<open>Signature check (lines 203-223)\<close>

text \<open>
  \<^verbatim>\<open>crypto.timingSafeEqual(Buffer.from(a), Buffer.from(b))\<close>: it throws when the two buffers
  differ in byte length, and compares them otherwise.
\<close>

definition timingSafeEqual :: "string \<Rightarrow> string \<Rightarrow> js_error + bool" where
  "timingSafeEqual a b =
     (if length a \<noteq> length b
      then Inl (RangeError ''Input buffers must have the same byte length'')
      else Inr (a = b))"

text \<open>
  Line 213, \<^verbatim>\<open>req.rawBody || JSON.stringify(req.body)\<close>: the text that is hashed. An empty
  \<^verbatim>\<open>rawBody\<close> is falsy, like an absent one.
\<close>

definition signed_text :: "'w services \<Rightarrow> request \<Rightarrow> string option" where
  "signed_text sv req =
     (case rawBody req of
        Some raw \<Rightarrow> if raw \<noteq> [] then Some raw else JSON_stringify sv (body req) 0
      | None \<Rightarrow> JSON_stringify sv (body req) 0)"

text \<open>
  \<^verbatim>\<open>createHmac\<close> throws on an \<^verbatim>\<open>undefined\<close> key and \<^verbatim>\<open>update\<close> on \<^verbatim>\<open>undefined\<close> data, in
  that order.
\<close>

definition expected_signature :: "'w services \<Rightarrow> config \<Rightarrow> request \<Rightarrow> js_error + string" where
  \<open>expected_signature sv cfg req =
     (let signed = signed_text sv req
      in case FACEBOOK_APP_SECRET cfg of
           None \<Rightarrow> Inl (TypeError ''The "key" argument must be of type string or an instance of ArrayBuffer, Buffer, TypedArray, DataView, KeyObject, or CryptoKey. Received undefined'')
         | Some secret \<Rightarrow>
             (case signed of
                None \<Rightarrow> Inl (TypeError ''The "data" argument must be of type string or an instance of Buffer, TypedArray, or DataView. Received undefined'')
              | Some data \<Rightarrow> Inr (''sha256='' @ hmac_sha256_hex sv secret data)))\<close>

definition verifyRequestSignature :: "'w services \<Rightarrow> config \<Rightarrow> request \<Rightarrow> js_error + bool" where
  "verifyRequestSignature sv cfg req =
     (case headers req ''x-hub-signature-256'' of
        None \<Rightarrow> Inr False
      | Some xHubSignature \<Rightarrow>
          if xHubSignature = [] then Inr False
          else (case expected_signature sv cfg req of
                  Inl e \<Rightarrow> Inl e
                | Inr expectedSignature \<Rightarrow> timingSafeEqual xHubSignature expectedSignature))"

section \<open>Outbound delivery (lines 174-199)\<close>

definition messages_url :: string where
  "messages_url = ''https://graph.facebook.com/v18.0/me/messages''"

definition send_payload :: "config \<Rightarrow> jsval \<Rightarrow> jsval \<Rightarrow> jsval" where
  "send_payload cfg recipientId messageText =
     JObj [(''recipient'', JObj [(''id'', recipientId)]),
           (''message'', JObj [(''text'', messageText)]),
           (''access_token'', env_value (FACEBOOK_PAGE_ACCESS_TOKEN cfg))]"

text \<open>Line 191: the call is made, and recorded, whatever its outcome.\<close>

definition post_message ::
  "'w services \<Rightarrow> string \<Rightarrow> jsval \<Rightarrow> 'w state \<Rightarrow> (js_error + nat) \<times> 'w state" where
  "post_message sv url payload st =
     (case axios_post sv url payload (world st) of
        (r, w) \<Rightarrow> (r, st\<lparr>world := w, trace := trace st @ [AxiosPost url payload]\<rparr>))"

definition sendMessageToFacebook ::
  "'w services \<Rightarrow> config \<Rightarrow> jsval \<Rightarrow> jsval \<Rightarrow> 'w state \<Rightarrow> (js_error + unit) \<times> 'w state" where
  "sendMessageToFacebook sv cfg recipientId messageText =
     try_catch
       (exec (post_message sv messages_url (send_payload cfg recipientId messageText))
          (\<lambda>response_status.
             if response_status = 200
             then eval (template [Lit ''Message sent to '', Sub recipientId])
                    (\<lambda>msg st. (Inr (), logger SUCCESS msg st))
             else returns ()))
       (\<lambda>error st.
          (Inr (), logger ERROR (''Failed to send message to Facebook: '' @ message error) st))"

section \<open>Reply generation (lines 127-152)\<close>

definition apology :: string where
  \<open>apology = ''Thank you for your message. I'm having technical difficulties. Please try again later.''\<close>

definition prompt_parts :: "jsval \<Rightarrow> part list" where
  \<open>prompt_parts userMessage =
     [Lit (''You are a helpful customer service assistant for a Facebook business page.''
           @ [CHR 0x0A, CHR 0x0A] @ ''User message: "''),
      Sub userMessage,
      Lit (''"'' @ [CHR 0x0A, CHR 0x0A]
           @ ''Please provide a friendly, concise response (max 500 characters). '' @ [CHR 0x0A]
           @ ''If it's a question, answer helpfully. If it's a complaint, empathize and offer solutions.''
           @ [CHR 0x0A] @ ''Always be professional and courteous.'')]\<close>

text \<open>Lines 142-144: the call is made, and recorded, whatever its outcome.\<close>

definition call_gemini ::
  "'w services \<Rightarrow> string \<Rightarrow> 'w state \<Rightarrow> (js_error + string) \<times> 'w state" where
  "call_gemini sv prompt st =
     (case generateContent sv prompt (world st) of
        (r, w) \<Rightarrow> (r, st\<lparr>world := w, trace := trace st @ [GenerateContent prompt]\<rparr>))"

definition generateResponseWithGemini ::
  "'w services \<Rightarrow> jsval \<Rightarrow> 'w state \<Rightarrow> (js_error + jsval) \<times> 'w state" where
  "generateResponseWithGemini sv userMessage =
     try_catch
       (eval (template (prompt_parts userMessage))
          (\<lambda>prompt.
             exec (call_gemini sv prompt)
               (\<lambda>aiText st.
                  (Inr (JStr aiText), logger SUCCESS (''Gemini response: '' @ aiText) st))))
       (\<lambda>error st.
          (Inr (JStr apology), logger ERROR (''Error calling Gemini API: '' @ message error) st))"

section \<open>Postback resolution (lines 156-170)\<close>

definition welcome_text :: string where
  "welcome_text =
     ''Welcome! '' @ [CHR 0xF0, CHR 0x9F, CHR 0x91, CHR 0x8B] @ '' How can I help you today?''"

definition fallback :: string where
  \<open>fallback = ''I didn't understand that action.''\<close>

definition responses :: jsval where
  \<open>responses =
     JObj [(''GET_STARTED'', JStr welcome_text),
           (''MENU_INFO'', JStr ''Here's our business information...''),
           (''MENU_SUPPORT'', JStr ''Select an issue: 1) Billing 2) Technical 3) General'')]\<close>

text \<open>
  Line 168, \<^verbatim>\<open>responses[payload] || '...'\<close>: the key is the payload converted to a string, and
  the table is an ordinary object, so the lookup also finds what the table inherits.
\<close>

definition handlePostback ::
  "'w services \<Rightarrow> config \<Rightarrow> jsval \<Rightarrow> jsval \<Rightarrow> 'w state \<Rightarrow> (js_error + unit) \<times> 'w state" where
  "handlePostback sv cfg senderId payload =
     eval (template [Lit ''Processing postback: '', Sub payload])
       (\<lambda>msg st0.
          eval (to_string payload)
            (\<lambda>key.
               eval (get_prop responses key)
                 (\<lambda>found.
                    sendMessageToFacebook sv cfg senderId
                      (if truthy found then found else JStr fallback)))
            (logger INFO msg st0))"

section \<open>Message processing (lines 86-123)\<close>

definition text_path ::
  "'w services \<Rightarrow> config \<Rightarrow> jsval \<Rightarrow> jsval \<Rightarrow> 'w state \<Rightarrow> (js_error + unit) \<times> 'w state" where
  "text_path sv cfg senderId userMessage =
     eval (template [Lit ''Message from '', Sub senderId, Lit '': '', Sub userMessage])
       (\<lambda>msg st0.
          exec (generateResponseWithGemini sv userMessage)
            (\<lambda>aiResponse. sendMessageToFacebook sv cfg senderId aiResponse)
            (logger INFO msg st0))"

definition postback_path ::
  "'w services \<Rightarrow> config \<Rightarrow> jsval \<Rightarrow> jsval \<Rightarrow> 'w state \<Rightarrow> (js_error + unit) \<times> 'w state" where
  "postback_path sv cfg senderId event_postback =
     eval (get_prop event_postback ''payload'')
       (\<lambda>postbackPayload.
          eval (template [Lit ''Postback from '', Sub senderId, Lit '': '', Sub postbackPayload])
            (\<lambda>msg st0. handlePostback sv cfg senderId postbackPayload (logger INFO msg st0)))"

definition quick_reply_path :: "jsval \<Rightarrow> jsval \<Rightarrow> 'w state \<Rightarrow> (js_error + unit) \<times> 'w state" where
  "quick_reply_path senderId quick_reply =
     eval (get_prop quick_reply ''payload'')
       (\<lambda>quickReplyPayload.
          eval (template [Lit ''Quick reply from '', Sub senderId, Lit '': '', Sub quickReplyPayload])
            (\<lambda>msg st0. (Inr (), logger INFO msg st0)))"

text \<open>
  The three branches in the order of the source: \<^verbatim>\<open>if (event.message)\<close>, line 94;
  \<^verbatim>\<open>else if (event.postback)\<close>, line 110;
  \<^verbatim>\<open>else if (event.message && event.message.quick_reply)\<close>, line 119.
\<close>

definition processMessage ::
  "'w services \<Rightarrow> config \<Rightarrow> jsval \<Rightarrow> 'w state \<Rightarrow> (js_error + unit) \<times> 'w state" where
  "processMessage sv cfg event =
     eval (get_prop event ''sender'') (\<lambda>sender.
     eval (get_prop sender ''id'') (\<lambda>senderId.
     eval (get_prop event ''recipient'') (\<lambda>recipient.
     eval (get_prop recipient ''id'') (\<lambda>recipientId.
     eval (get_prop event ''message'') (\<lambda>event_message.
       if truthy event_message then
         eval (get_prop event_message ''text'') (\<lambda>userMessage.
           if truthy userMessage then text_path sv cfg senderId userMessage
           else returns ())
       else
         eval (get_prop event ''postback'') (\<lambda>event_postback.
           if truthy event_postback then postback_path sv cfg senderId event_postback
           else
             eval (get_prop event ''message'') (\<lambda>event_message2.
               if truthy event_message2 then
                 eval (get_prop event_message2 ''quick_reply'') (\<lambda>quick_reply.
                   if truthy quick_reply then quick_reply_path senderId quick_reply
                   else returns ())
               else returns ())))))))"

section \<open>Webhook receiver: POST /webhook (lines 54-82)\<close>

text \<open>Lines 72-76: one messaging event, inside its \<^verbatim>\<open>try\<close>.\<close>

definition handle_event ::
  "'w services \<Rightarrow> config \<Rightarrow> jsval \<Rightarrow> 'w state \<Rightarrow> (js_error + unit) \<times> 'w state" where
  "handle_event sv cfg messagingEvent =
     try_catch (processMessage sv cfg messagingEvent)
       (\<lambda>error st.
          (Inr (), logger ERROR (''Error processing message: '' @ message error) st))"

text \<open>The inner loop (line 71) and the outer loop (line 70). A throw ends the loop it is in.\<close>

fun process_events ::
  "'w services \<Rightarrow> config \<Rightarrow> jsval list \<Rightarrow> 'w state \<Rightarrow> (js_error + unit) \<times> 'w state" where
  "process_events sv cfg [] = returns ()"
| "process_events sv cfg (messagingEvent # rest) =
     exec (handle_event sv cfg messagingEvent) (\<lambda>u. process_events sv cfg rest)"

fun process_entries ::
  "'w services \<Rightarrow> config \<Rightarrow> jsval list \<Rightarrow> 'w state \<Rightarrow> (js_error + unit) \<times> 'w state" where
  "process_entries sv cfg [] = returns ()"
| "process_entries sv cfg (entry # rest) =
     eval (get_prop entry ''messaging'') (\<lambda>messaging.
     eval (iterate ''entry.messaging'' messaging) (\<lambda>events.
     exec (process_events sv cfg events) (\<lambda>u. process_entries sv cfg rest)))"

text \<open>
  Lines 69-81, after the signature check: the dispatch and the final \<^verbatim>\<open>200 OK\<close>.
\<close>

definition ok_response :: response where
  "ok_response = \<lparr>status = 200, sent = JStr ''OK''\<rparr>"

definition dispatch ::
  "'w services \<Rightarrow> config \<Rightarrow> jsval \<Rightarrow> 'w state \<Rightarrow> (js_error + response) \<times> 'w state" where
  "dispatch sv cfg received =
     eval (get_prop received ''object'') (\<lambda>body_object.
       if strict_equals body_object (JStr ''page'') then
         eval (get_prop received ''entry'') (\<lambda>body_entry.
         eval (iterate ''body.entry'' body_entry) (\<lambda>entries.
         exec (process_entries sv cfg entries) (\<lambda>u. returns ok_response)))
       else returns ok_response)"

text \<open>
  The handler. \<open>Inl\<close> is the handler throwing: its promise rejects and it has sent no
  response of its own.
\<close>

definition received_line :: "'w services \<Rightarrow> jsval \<Rightarrow> string" where
  "received_line sv received =
     ''Received webhook: '' @ (case JSON_stringify sv received 2 of None \<Rightarrow> ''undefined'' | Some s \<Rightarrow> s)"

definition post_webhook ::
  "'w services \<Rightarrow> config \<Rightarrow> request \<Rightarrow> 'w state \<Rightarrow> (js_error + response) \<times> 'w state" where
  "post_webhook sv cfg req =
     eval (verifyRequestSignature sv cfg req) (\<lambda>verified st0.
       if \<not> verified
       then (Inr \<lparr>status = 403, sent = JStr ''Unauthorized''\<rparr>,
             logger ERROR ''Invalid request signature'' st0)
       else dispatch sv cfg (body req) (logger INFO (received_line sv (body req)) st0))"

section \<open>The application: middleware order (lines 21-22, 54, 242-257)\<close>

text \<open>
  A POST to \<^verbatim>\<open>/webhook\<close> passes the body parsers registered at lines 21-22 and reaches the
  route of line 54. The parser of line 21 is created without a \<^verbatim>\<open>verify\<close> hook, so it leaves
  \<^verbatim>\<open>req.rawBody\<close> unset. The parser that does set \<^verbatim>\<open>req.rawBody\<close> is registered at line 253,
  after the routes and after the catch-all of line 242 that answers every request still
  unanswered: no request reaches it. A body that fails to parse goes to the error handler of
  line 246.
\<close>

definition app_post_webhook ::
  "'w services \<Rightarrow> config \<Rightarrow> (string \<rightharpoonup> string) \<Rightarrow> string \<Rightarrow> 'w state \<Rightarrow>
   (js_error + response) \<times> 'w state" where
  "app_post_webhook sv cfg hdrs raw st =
     (case body_parser sv hdrs raw of
        Inl err \<Rightarrow>
          (Inr \<lparr>status = 500, sent = JObj [(''error'', JStr ''Internal server error'')]\<rparr>,
           logger ERROR (''Unhandled error: '' @ message err) st)
      | Inr parsed \<Rightarrow>
          post_webhook sv cfg \<lparr>headers = hdrs, query = Map.empty, body = parsed, rawBody = None\<rparr> st)"

section \<open>Observing a run\<close>

text \<open>
  The calls to the two remote services that a trace holds, and the messaging events that an
  entry declares (none when its \<^verbatim>\<open>messaging\<close> value cannot be iterated).
\<close>

fun is_delivery :: "effect \<Rightarrow> bool" where
  "is_delivery (AxiosPost url payload) = True"
| "is_delivery (Log l msg) = False"
| "is_delivery (GenerateContent prompt) = False"

fun is_generation :: "effect \<Rightarrow> bool" where
  "is_generation (GenerateContent prompt) = True"
| "is_generation (Log l msg) = False"
| "is_generation (AxiosPost url payload) = False"

definition deliveries :: "effect list \<Rightarrow> effect list" where
  "deliveries t = filter is_delivery t"

definition generations :: "effect list \<Rightarrow> effect list" where
  "generations t = filter is_generation t"

definition entry_events :: "jsval \<Rightarrow> jsval list option" where
  "entry_events entry =
     (case get_prop entry ''messaging'' of
        Inl e \<Rightarrow> None
      | Inr messaging \<Rightarrow>
          (case iterate ''entry.messaging'' messaging of Inl e \<Rightarrow> None | Inr events \<Rightarrow> Some events))"

fun all_events :: "jsval list \<Rightarrow> jsval list" where
  "all_events [] = []"
| "all_events (entry # rest) =
     (case entry_events entry of None \<Rightarrow> [] | Some events \<Rightarrow> events) @ all_events rest"

text \<open>The state after the events of a list have been handled one after the other.\<close>

fun after_events :: "'w services \<Rightarrow> config \<Rightarrow> jsval list \<Rightarrow> 'w state \<Rightarrow> 'w state" where
  "after_events sv cfg [] st = st"
| "after_events sv cfg (ev # evs) st = after_events sv cfg evs (snd (handle_event sv cfg ev st))"

section \<open>A scripted environment for the examples\<close>

text \<open>
  The closed examples below need the collaborators as concrete functions. The two remote
  services follow a script: the world is the list of answers still to come, and each call
  takes the next one (a call past the end of the script fails). The three library functions
  are tables of their true values on the texts the examples use: the SHA-256 HMAC digests
  under the key \<^verbatim>\<open>app-secret\<close>, and the JSON texts of the example bodies, compact (as
  hashed, indentation 0) and indented (as logged, indentation 2; the program asks for no
  other). Off the tables they give a fixed answer, and the examples never leave the tables.
\<close>

record script =
  gemini_answers :: "(js_error + string) list"
  axios_answers :: "(js_error + nat) list"

definition body_empty_entry :: jsval where
  "body_empty_entry = JObj [(''object'', JStr ''page''), (''entry'', JArr [JObj []])]"

definition text_event :: jsval where
  "text_event =
     JObj [(''sender'', JObj [(''id'', JStr ''42'')]),
           (''recipient'', JObj [(''id'', JStr ''7'')]),
           (''message'', JObj [(''text'', JStr ''Hi'')])]"

definition body_two_events :: jsval where
  "body_two_events =
     JObj [(''object'', JStr ''page''),
           (''entry'', JArr [JObj [(''messaging'', JArr [JObj [], text_event])]])]"

definition body_no_entries :: jsval where
  "body_no_entries = JObj [(''object'', JStr ''page''), (''entry'', JArr [])]"

definition body_page_only :: jsval where
  "body_page_only = JObj [(''object'', JStr ''page'')]"

definition quick_reply_event :: jsval where
  "quick_reply_event =
     JObj [(''sender'', JObj [(''id'', JStr ''42'')]),
           (''recipient'', JObj [(''id'', JStr ''7'')]),
           (''message'', JObj [(''text'', JStr ''Yes''),
                               (''quick_reply'', JObj [(''payload'', JStr ''YES_PAYLOAD'')])])]"

definition attachment_event :: jsval where
  "attachment_event =
     JObj [(''sender'', JObj [(''id'', JStr ''42'')]),
           (''recipient'', JObj [(''id'', JStr ''7'')]),
           (''message'', JObj [(''mid'', JStr ''m_1''), (''attachments'', JArr [])])]"

definition body_not_page :: jsval where
  "body_not_page = JObj [(''object'', JStr ''instagram'')]"

definition text_not_page :: string where
  \<open>text_not_page = ''{"object":"instagram"}''\<close>

definition text_page_only :: string where
  \<open>text_page_only = ''{"object":"page"}''\<close>

definition text_empty_entry :: string where
  \<open>text_empty_entry = ''{"object":"page","entry":[{}]}''\<close>

definition text_two_events :: string where
  \<open>text_two_events = ''{"object":"page","entry":[{"messaging":[{},{"sender":{"id":"42"},"recipient":{"id":"7"},"message":{"text":"Hi"}}]}]}''\<close>

definition text_no_entries :: string where
  \<open>text_no_entries = ''{"object":"page","entry":[]}''\<close>

definition text_no_entries_spaced :: string where
  \<open>text_no_entries_spaced = ''{"object": "page","entry":[]}''\<close>

definition text_no_entries_newline :: string where
  \<open>text_no_entries_newline = ''{"object":'' @ [CHR 0x0A] @ ''"page","entry":[]}''\<close>

fun join_lines :: "string list \<Rightarrow> string" where
  "join_lines [] = []"
| "join_lines [l] = l"
| "join_lines (l # ls) = l @ CHR 0x0A # join_lines ls"

definition pretty_empty_entry :: string where
  \<open>pretty_empty_entry =
     join_lines
       [''{'',
        ''  "object": "page",'',
        ''  "entry": ['',
        ''    {}'',
        ''  ]'',
        ''}'']\<close>

definition pretty_two_events :: string where
  \<open>pretty_two_events =
     join_lines
       [''{'',
        ''  "object": "page",'',
        ''  "entry": ['',
        ''    {'',
        ''      "messaging": ['',
        ''        {},'',
        ''        {'',
        ''          "sender": {'',
        ''            "id": "42"'',
        ''          },'',
        ''          "recipient": {'',
        ''            "id": "7"'',
        ''          },'',
        ''          "message": {'',
        ''            "text": "Hi"'',
        ''          }'',
        ''        }'',
        ''      ]'',
        ''    }'',
        ''  ]'',
        ''}'']\<close>

definition pretty_no_entries :: string where
  \<open>pretty_no_entries =
     join_lines
       [''{'',
        ''  "object": "page",'',
        ''  "entry": []'',
        ''}'']\<close>

definition pretty_page_only :: string where
  \<open>pretty_page_only =
     join_lines
       [''{'',
        ''  "object": "page"'',
        ''}'']\<close>

definition pretty_not_page :: string where
  \<open>pretty_not_page =
     join_lines
       [''{'',
        ''  "object": "instagram"'',
        ''}'']\<close>

definition example_stringify :: "jsval \<Rightarrow> nat \<Rightarrow> string option" where
  "example_stringify v indent =
     (if v = body_empty_entry then Some (if indent = 0 then text_empty_entry else pretty_empty_entry)
      else if v = body_two_events then Some (if indent = 0 then text_two_events else pretty_two_events)
      else if v = body_no_entries then Some (if indent = 0 then text_no_entries else pretty_no_entries)
      else if v = body_page_only then Some (if indent = 0 then text_page_only else pretty_page_only)
      else if v = body_not_page then Some (if indent = 0 then text_not_page else pretty_not_page)
      else Some ''null'')"

definition example_parser :: "(string \<rightharpoonup> string) \<Rightarrow> string \<Rightarrow> js_error + jsval" where
  "example_parser hdrs raw =
     (if raw = text_empty_entry then Inr body_empty_entry
      else if raw = text_two_events then Inr body_two_events
      else if raw = text_no_entries \<or> raw = text_no_entries_spaced
              \<or> raw = text_no_entries_newline then Inr body_no_entries
      else if raw = text_page_only then Inr body_page_only
      else if raw = text_not_page then Inr body_not_page
      else Inl (ServiceError ''Unexpected token''))"

definition example_hmac :: "string \<Rightarrow> string \<Rightarrow> string" where
  "example_hmac key data =
     (if key = ''app-secret'' \<and> data = text_empty_entry
        then ''0d7654b5d6a6f1602612183452c1b49e76512aaa1c8e18ed54284d444fbc8086''
      else if key = ''app-secret'' \<and> data = text_two_events
        then ''ef449360c3ddda46fab50801d24cf3354a338bac97699792003c2cb607f2bb16''
      else if key = ''app-secret'' \<and> data = text_no_entries
        then ''e6e9d7a842a48e17f43a34d6125d0d933e2aab92ee37f0993a4d493b50e3d438''
      else if key = ''app-secret'' \<and> data = text_no_entries_spaced
        then ''18edbaac21654c311bb7f2d8cf5cf381bc88368d78dab65c3b5b2f0426a435be''
      else if key = ''app-secret'' \<and> data = text_page_only
        then ''ae958d6f00b134dd32b95a9a76bedaaeb068c0949769358355023f7d1a0c580b''
      else if key = ''app-secret'' \<and> data = text_not_page
        then ''f9f60d2fd6f1498ad1636cf26d6916018f8c80c0a4ac67169c9499d510ee1762''
      else ''0000000000000000000000000000000000000000000000000000000000000000'')"

definition example_services :: "script services" where
  "example_services =
     \<lparr>generateContent = (\<lambda>prompt w.
          case gemini_answers w of
            [] \<Rightarrow> (Inl (ServiceError ''fetch failed''), w)
          | a # rest \<Rightarrow> (a, w\<lparr>gemini_answers := rest\<rparr>)),
      axios_post = (\<lambda>url payload w.
          case axios_answers w of
            [] \<Rightarrow> (Inl (ServiceError ''Network Error''), w)
          | a # rest \<Rightarrow> (a, w\<lparr>axios_answers := rest\<rparr>)),
      hmac_sha256_hex = example_hmac,
      JSON_stringify = example_stringify,
      body_parser = example_parser\<rparr>"

definition example_config :: config where
  "example_config =
     \<lparr>GEMINI_API_KEY = Some ''gemini-key'',
      FACEBOOK_VERIFY_TOKEN = Some ''verify-me'',
      FACEBOOK_PAGE_ACCESS_TOKEN = Some ''page-token'',
      FACEBOOK_APP_SECRET = Some ''app-secret''\<rparr>"

definition unset_config :: config where
  "unset_config =
     \<lparr>GEMINI_API_KEY = None, FACEBOOK_VERIFY_TOKEN = None,
      FACEBOOK_PAGE_ACCESS_TOKEN = None, FACEBOOK_APP_SECRET = None\<rparr>"

definition start :: "(js_error + string) list \<Rightarrow> (js_error + nat) list \<Rightarrow> script state" where
  "start gs as = \<lparr>world = \<lparr>gemini_answers = gs, axios_answers = as\<rparr>, trace = []\<rparr>"

definition post_request :: "string \<Rightarrow> jsval \<Rightarrow> request" where
  "post_request signature b =
     \<lparr>headers = [''x-hub-signature-256'' \<mapsto> signature], query = Map.empty,
      body = b, rawBody = None\<rparr>"

definition get_request :: "(string \<rightharpoonup> jsval) \<Rightarrow> request" where
  "get_request q = \<lparr>headers = Map.empty, query = q, body = JObj [], rawBody = None\<rparr>"

section \<open>Sequencing, delivery and generation: basic facts\<close>

lemma eval_Inl [simp]: "eval (Inl e) k st = (Inl e, st)"
  by (simp add: eval_def)
lemma eval_Inr [simp]: "eval (Inr v) k st = k v st"
  by (simp add: eval_def)
lemma returns_apply [simp]: "returns v st = (Inr v, st)"
  by (simp add: returns_def)
lemma trace_logger [simp]: "trace (logger l m st) = trace st @ [Log l m]"
  by (simp add: logger_def)
lemma world_logger [simp]: "world (logger l m st) = world st"
  by (simp add: logger_def)

lemma send_result: "fst (sendMessageToFacebook sv cfg r t st) = Inr ()"
  by (simp add: sendMessageToFacebook_def try_catch_def exec_def post_message_def eval_def
      split: prod.splits sum.splits)

lemma send_trace:
  "trace (snd (sendMessageToFacebook sv cfg r t st)) =
     trace st @ AxiosPost messages_url (send_payload cfg r t) #
       (case fst (axios_post sv messages_url (send_payload cfg r t) (world st)) of
          Inl e \<Rightarrow> [Log ERROR (''Failed to send message to Facebook: '' @ message e)]
        | Inr code \<Rightarrow>
            if code = 200
            then (case template [Lit ''Message sent to '', Sub r] of
                    Inl e \<Rightarrow> [Log ERROR (''Failed to send message to Facebook: '' @ message e)]
                  | Inr m \<Rightarrow> [Log SUCCESS m])
            else [])"
  by (simp add: sendMessageToFacebook_def try_catch_def exec_def post_message_def eval_def
      split: prod.splits sum.splits)

lemma send_deliveries:
  "deliveries (trace (snd (sendMessageToFacebook sv cfg r t st))) =
     deliveries (trace st) @ [AxiosPost messages_url (send_payload cfg r t)]"
  by (simp add: send_trace deliveries_def split: sum.splits)

lemma send_generations:
  "generations (trace (snd (sendMessageToFacebook sv cfg r t st))) = generations (trace st)"
  by (simp add: send_trace generations_def split: sum.splits)

lemma gen_result: "\<not> isl (fst (generateResponseWithGemini sv um st))"
  by (simp add: generateResponseWithGemini_def try_catch_def exec_def call_gemini_def eval_def
      split: prod.splits sum.splits)

lemma gen_failure:
  "template (prompt_parts um) = Inr prompt \<Longrightarrow>
   fst (generateContent sv prompt (world st)) = Inl error \<Longrightarrow>
   generateResponseWithGemini sv um st =
     (Inr (JStr apology),
      st\<lparr>world := snd (generateContent sv prompt (world st)),
         trace := trace st @ [GenerateContent prompt,
                              Log ERROR (''Error calling Gemini API: '' @ message error)]\<rparr>)"
  by (cases "generateContent sv prompt (world st)")
     (simp add: generateResponseWithGemini_def try_catch_def exec_def call_gemini_def logger_def)

lemma gen_deliveries:
  "deliveries (trace (snd (generateResponseWithGemini sv um st))) = deliveries (trace st)"
  by (simp add: generateResponseWithGemini_def try_catch_def exec_def call_gemini_def eval_def
      deliveries_def split: prod.splits sum.splits)

lemma processMessage_message:
  assumes "get_prop event ''sender'' = Inr sender" and "get_prop sender ''id'' = Inr senderId"
    and "get_prop event ''recipient'' = Inr recipient" and "get_prop recipient ''id'' = Inr recipientId"
    and "get_prop event ''message'' = Inr event_message" and "truthy event_message"
    and "get_prop event_message ''text'' = Inr userMessage"
  shows "processMessage sv cfg event st =
           (if truthy userMessage then text_path sv cfg senderId userMessage st else (Inr (), st))"
  using assms by (simp add: processMessage_def)

lemma text_path_failure:
  assumes "template [Lit ''Message from '', Sub senderId, Lit '': '', Sub userMessage] = Inr line"
    and "template (prompt_parts userMessage) = Inr prompt"
    and "fst (generateContent sv prompt (world st)) = Inl error"
  shows "fst (text_path sv cfg senderId userMessage st) = Inr () \<and>
         deliveries (trace (snd (text_path sv cfg senderId userMessage st))) =
           deliveries (trace st) @ [AxiosPost messages_url (send_payload cfg senderId (JStr apology))]"
proof -
  let ?st1 = "logger INFO line st"
  have g: "fst (generateContent sv prompt (world ?st1)) = Inl error"
    using assms(3) by simp
  have t: "text_path sv cfg senderId userMessage st =
             sendMessageToFacebook sv cfg senderId (JStr apology)
               (snd (generateResponseWithGemini sv userMessage ?st1))"
    using assms(1) gen_failure [OF assms(2) g] by (simp add: text_path_def exec_def)
  have d: "deliveries (trace (snd (generateResponseWithGemini sv userMessage ?st1))) = deliveries (trace st)"
    by (simp add: gen_deliveries) (simp add: deliveries_def)
  show ?thesis
    by (simp add: t send_result send_deliveries d)
qed

section \<open>The dispatch loops: basic facts\<close>

lemma handle_event_result: "fst (handle_event sv cfg ev st) = Inr ()"
  by (simp add: handle_event_def try_catch_def split: prod.splits sum.splits)

lemma handle_event_caught:
  "processMessage sv cfg ev st = (Inl e, st') \<Longrightarrow>
   handle_event sv cfg ev st = (Inr (), logger ERROR (''Error processing message: '' @ message e) st')"
  by (simp add: handle_event_def try_catch_def)

lemma handle_event_passed:
  "processMessage sv cfg ev st = (Inr u, st') \<Longrightarrow> handle_event sv cfg ev st = (Inr (), st')"
  by (simp add: handle_event_def try_catch_def)

lemma process_events_eq: "process_events sv cfg evs st = (Inr (), after_events sv cfg evs st)"
proof (induction evs arbitrary: st)
  case Nil
  show ?case by simp
next
  case (Cons ev evs)
  obtain st1 where h: "handle_event sv cfg ev st = (Inr (), st1)"
    using handle_event_result [of sv cfg ev st] by (cases "handle_event sv cfg ev st") auto
  show ?case using Cons.IH [of st1] h by (simp add: exec_def)
qed

lemma after_events_append:
  "after_events sv cfg (xs @ ys) st = after_events sv cfg ys (after_events sv cfg xs st)"
  by (induction xs arbitrary: st) auto

lemma process_entries_eq:
  "\<forall>entry \<in> set entries. entry_events entry \<noteq> None \<Longrightarrow>
   process_entries sv cfg entries st = (Inr (), after_events sv cfg (all_events entries) st)"
proof (induction entries arbitrary: st)
  case Nil
  show ?case by simp
next
  case (Cons entry rest)
  from Cons.prems obtain evs where evs: "entry_events entry = Some evs"
    by auto
  then obtain m where m: "get_prop entry ''messaging'' = Inr m"
    and it: "iterate ''entry.messaging'' m = Inr evs"
    by (auto simp: entry_events_def split: sum.splits)
  from Cons.prems have rest: "\<forall>entry \<in> set rest. entry_events entry \<noteq> None"
    by simp
  show ?case
    using Cons.IH [OF rest] m it evs
    by (simp add: exec_def process_events_eq after_events_append)
qed

lemma process_entries_throws:
  "entry_events entry = None \<Longrightarrow> isl (fst (process_entries sv cfg (entry # rest) st))"
  by (auto simp: entry_events_def split: sum.splits)

lemma strict_equals_JStr: "strict_equals v (JStr s) = (v = JStr s)"
  by (cases v) auto

lemma dispatch_page:
  assumes "get_prop b ''object'' = Inr (JStr ''page'')"
    and "get_prop b ''entry'' = Inr v"
    and "iterate ''body.entry'' v = Inr entries"
    and "\<forall>entry \<in> set entries. entry_events entry \<noteq> None"
  shows "dispatch sv cfg b st = (Inr ok_response, after_events sv cfg (all_events entries) st)"
  using assms by (simp add: dispatch_def exec_def process_entries_eq)

lemma dispatch_other:
  assumes "get_prop b ''object'' = Inr v" and "v \<noteq> JStr ''page''"
  shows "dispatch sv cfg b st = (Inr ok_response, st)"
  using assms by (simp add: dispatch_def strict_equals_JStr)

section \<open>The signature check and the handler: basic facts\<close>

lemma expected_signature_nonempty: "expected_signature sv cfg req = Inr expected \<Longrightarrow> expected \<noteq> []"
  by (auto simp: expected_signature_def Let_def split: option.splits)

lemma verify_absent:
  "headers req ''x-hub-signature-256'' = None \<or> headers req ''x-hub-signature-256'' = Some [] \<Longrightarrow>
   verifyRequestSignature sv cfg req = Inr False"
  by (auto simp: verifyRequestSignature_def)

lemma verify_same_length:
  "headers req ''x-hub-signature-256'' = Some x \<Longrightarrow> x \<noteq> [] \<Longrightarrow>
   expected_signature sv cfg req = Inr expected \<Longrightarrow> length x = length expected \<Longrightarrow>
   verifyRequestSignature sv cfg req = Inr (x = expected)"
  by (simp add: verifyRequestSignature_def timingSafeEqual_def)

lemma verify_other_length:
  "headers req ''x-hub-signature-256'' = Some x \<Longrightarrow> x \<noteq> [] \<Longrightarrow>
   expected_signature sv cfg req = Inr expected \<Longrightarrow> length x \<noteq> length expected \<Longrightarrow>
   verifyRequestSignature sv cfg req = Inl (RangeError ''Input buffers must have the same byte length'')"
  by (simp add: verifyRequestSignature_def timingSafeEqual_def)

lemma post_webhook_rejected:
  "verifyRequestSignature sv cfg req = Inr False \<Longrightarrow>
   post_webhook sv cfg req st =
     (Inr \<lparr>status = 403, sent = JStr ''Unauthorized''\<rparr>, logger ERROR ''Invalid request signature'' st)"
  by (simp add: post_webhook_def)

lemma post_webhook_verified:
  "verifyRequestSignature sv cfg req = Inr True \<Longrightarrow>
   post_webhook sv cfg req st =
     dispatch sv cfg (body req) (logger INFO (received_line sv (body req)) st)"
  by (simp add: post_webhook_def)

lemma app_post_webhook_parse_only:
  "body_parser sv hdrs raw1 = body_parser sv hdrs raw2 \<Longrightarrow>
   app_post_webhook sv cfg hdrs raw1 st = app_post_webhook sv cfg hdrs raw2 st"
  by (simp add: app_post_webhook_def)

text \<open>The definitions of the scripted environment, for evaluating the examples.\<close>

lemmas example_defs =
  example_services_def example_config_def example_hmac_def example_stringify_def
  example_parser_def start_def post_request_def
  body_empty_entry_def body_two_events_def body_no_entries_def body_page_only_def
  text_empty_entry_def text_two_events_def text_no_entries_def text_page_only_def
  text_no_entries_spaced_def text_no_entries_newline_def text_event_def
  body_not_page_def text_not_page_def

lemma verified_two_events:
  "verifyRequestSignature example_services example_config
     (post_request ''sha256=ef449360c3ddda46fab50801d24cf3354a338bac97699792003c2cb607f2bb16''
        body_two_events) = Inr True"
  by (simp add: verifyRequestSignature_def expected_signature_def signed_text_def
      timingSafeEqual_def example_defs)

lemmas verify_defs =
  verifyRequestSignature_def expected_signature_def signed_text_def timingSafeEqual_def
  Let_def

section \<open>Webhook verification: properties\<close>

lemma strict_equals_env_value:
  "strict_equals v (env_value t) =
     (case t of Some tok \<Rightarrow> v = JStr tok | None \<Rightarrow> v = JUndefined)"
  by (cases v; cases t) (auto simp: env_value_def)

text \<open>
  Claim C7. On \<^verbatim>\<open>GET /webhook\<close>, when the \<^verbatim>\<open>hub.verify_token\<close> query parameter equals the
  configured verify token (the same string, or both undefined), the response is status 200 and
  the value handed to \<^verbatim>\<open>res.send\<close> is the \<^verbatim>\<open>hub.challenge\<close> parameter, unchanged; in every other
  case the response is status 403.
\<close>

theorem get_webhook_token_check:
  "((case FACEBOOK_VERIFY_TOKEN cfg of
       Some tok \<Rightarrow> query_param req ''hub.verify_token'' = JStr tok
     | None \<Rightarrow> query_param req ''hub.verify_token'' = JUndefined) \<longrightarrow>
      fst (get_webhook cfg req st) = \<lparr>status = 200, sent = query_param req ''hub.challenge''\<rparr>) \<and>
   (\<not> (case FACEBOOK_VERIFY_TOKEN cfg of
         Some tok \<Rightarrow> query_param req ''hub.verify_token'' = JStr tok
       | None \<Rightarrow> query_param req ''hub.verify_token'' = JUndefined) \<longrightarrow>
      status (fst (get_webhook cfg req st)) = 403)"
  by (simp add: get_webhook_def strict_equals_env_value Let_def)

theorem get_webhook_token_check_witness:
  "fst (get_webhook example_config
          (get_request [''hub.verify_token'' \<mapsto> JStr ''verify-me'',
                        ''hub.challenge'' \<mapsto> JStr ''1158201444''])
          (start [] []))
     = \<lparr>status = 200, sent = JStr ''1158201444''\<rparr> \<and>
   status (fst (get_webhook example_config
                  (get_request [''hub.verify_token'' \<mapsto> JStr ''guess'',
                                ''hub.challenge'' \<mapsto> JStr ''1158201444''])
                  (start [] [])))
     = 403"
  using get_webhook_token_check [where cfg = example_config and st = "start [] []"
          and req = "get_request [''hub.verify_token'' \<mapsto> JStr ''verify-me'',
                                  ''hub.challenge'' \<mapsto> JStr ''1158201444'']"]
        get_webhook_token_check [where cfg = example_config and st = "start [] []"
          and req = "get_request [''hub.verify_token'' \<mapsto> JStr ''guess'',
                                  ''hub.challenge'' \<mapsto> JStr ''1158201444'']"]
  by (simp add: example_config_def get_request_def query_param_def)

text \<open>
  Claim C9. When the verify token is not configured and the request has no
  \<^verbatim>\<open>hub.verify_token\<close> parameter, the comparison is \<^verbatim>\<open>undefined === undefined\<close> and the response
  is status 200, not 403.
\<close>

theorem get_webhook_unset_token:
  "FACEBOOK_VERIFY_TOKEN cfg = None \<Longrightarrow> query req ''hub.verify_token'' = None \<Longrightarrow>
   status (fst (get_webhook cfg req st)) = 200 \<and>
   sent (fst (get_webhook cfg req st)) = query_param req ''hub.challenge''"
  by (simp add: get_webhook_def query_param_def env_value_def Let_def)

theorem get_webhook_unset_token_witness:
  "FACEBOOK_VERIFY_TOKEN unset_config = None \<and>
   query (get_request Map.empty) ''hub.verify_token'' = None \<and>
   status (fst (get_webhook unset_config (get_request Map.empty) (start [] []))) = 200"
  using get_webhook_unset_token [where cfg = unset_config and req = "get_request Map.empty"
          and st = "start [] []"]
  by (simp add: unset_config_def get_request_def)

section \<open>Outbound delivery: properties\<close>

text \<open>
  Claim C8. For every recipient identifier and reply text, \<^verbatim>\<open>sendMessageToFacebook\<close> returns
  normally: it makes exactly one call to the messaging platform, and when that call fails the
  failure is logged and nothing is thrown to the caller.
\<close>

theorem sendMessageToFacebook_swallows_failure:
  "fst (sendMessageToFacebook sv cfg recipientId messageText st) = Inr () \<and>
   deliveries (trace (snd (sendMessageToFacebook sv cfg recipientId messageText st))) =
     deliveries (trace st) @ [AxiosPost messages_url (send_payload cfg recipientId messageText)] \<and>
   (\<forall>error.
      fst (axios_post sv messages_url (send_payload cfg recipientId messageText) (world st))
        = Inl error \<longrightarrow>
      trace (snd (sendMessageToFacebook sv cfg recipientId messageText st)) =
        trace st @ [AxiosPost messages_url (send_payload cfg recipientId messageText),
                    Log ERROR (''Failed to send message to Facebook: '' @ message error)])"
proof (intro conjI allI impI)
  show "fst (sendMessageToFacebook sv cfg recipientId messageText st) = Inr ()"
    by (rule send_result)
  show "deliveries (trace (snd (sendMessageToFacebook sv cfg recipientId messageText st))) =
          deliveries (trace st) @ [AxiosPost messages_url (send_payload cfg recipientId messageText)]"
    by (rule send_deliveries)
next
  fix error
  assume "fst (axios_post sv messages_url (send_payload cfg recipientId messageText) (world st))
            = Inl error"
  then show "trace (snd (sendMessageToFacebook sv cfg recipientId messageText st)) =
          trace st @ [AxiosPost messages_url (send_payload cfg recipientId messageText),
                      Log ERROR (''Failed to send message to Facebook: '' @ message error)]"
    by (simp add: send_trace)
qed

theorem sendMessageToFacebook_swallows_failure_witness:
  "fst (axios_post example_services messages_url
          (send_payload example_config (JStr ''42'') (JStr ''Hello''))
          (world (start [] [Inl (ServiceError ''Request failed with status code 400'')])))
     = Inl (ServiceError ''Request failed with status code 400'') \<and>
   fst (sendMessageToFacebook example_services example_config (JStr ''42'') (JStr ''Hello'')
          (start [] [Inl (ServiceError ''Request failed with status code 400'')])) = Inr () \<and>
   trace (snd (sendMessageToFacebook example_services example_config (JStr ''42'') (JStr ''Hello'')
          (start [] [Inl (ServiceError ''Request failed with status code 400'')]))) =
     [AxiosPost messages_url (send_payload example_config (JStr ''42'') (JStr ''Hello'')),
      Log ERROR ''Failed to send message to Facebook: Request failed with status code 400'']"
  using sendMessageToFacebook_swallows_failure
          [where sv = example_services and cfg = example_config and recipientId = "JStr ''42''"
             and messageText = "JStr ''Hello''"
             and st = "start [] [Inl (ServiceError ''Request failed with status code 400'')]"]
  by (simp add: example_services_def start_def)

section \<open>Message processing: properties\<close>

text \<open>
  Claim C10. A messaging event (one that has a sender and a recipient) whose \<^verbatim>\<open>message\<close> is an
  object without a \<^verbatim>\<open>text\<close> field is processed without error and without any effect: no
  generation call, no delivery call, no log line. Whether the event also has a postback does
  not matter, because the \<^verbatim>\<open>message\<close> branch is taken first.
\<close>

theorem message_without_text_ignored:
  assumes "get_prop event ''sender'' = Inr sender" and "get_prop sender ''id'' = Inr senderId"
    and "get_prop event ''recipient'' = Inr recipient"
    and "get_prop recipient ''id'' = Inr recipientId"
    and "get_prop event ''message'' = Inr (JObj members)"
    and "map_of members ''text'' = None"
  shows "processMessage sv cfg event st = (Inr (), st) \<and>
         handle_event sv cfg event st = (Inr (), st) \<and>
         generations (trace (snd (handle_event sv cfg event st))) = generations (trace st) \<and>
         deliveries (trace (snd (handle_event sv cfg event st))) = deliveries (trace st)"
proof -
  have t: "get_prop (JObj members) ''text'' = Inr JUndefined"
    using assms(6) by (simp add: object_prototype_names_def)
  have p: "processMessage sv cfg event st = (Inr (), st)"
    using processMessage_message [OF assms(1-5) _ t] by simp
  then show ?thesis
    by (simp add: handle_event_passed)
qed

theorem message_without_text_ignored_witness:
  "processMessage example_services example_config attachment_event (start [Inr ''Hello''] [Inr 200])
     = (Inr (), start [Inr ''Hello''] [Inr 200])"
proof -
  have "get_prop attachment_event ''sender'' = Inr (JObj [(''id'', JStr ''42'')])"
    and "get_prop (JObj [(''id'', JStr ''42'')]) ''id'' = Inr (JStr ''42'')"
    and "get_prop attachment_event ''recipient'' = Inr (JObj [(''id'', JStr ''7'')])"
    and "get_prop (JObj [(''id'', JStr ''7'')]) ''id'' = Inr (JStr ''7'')"
    and "get_prop attachment_event ''message''
           = Inr (JObj [(''mid'', JStr ''m_1''), (''attachments'', JArr [])])"
    and "map_of [(''mid'', JStr ''m_1''), (''attachments'', JArr [])] ''text'' = None"
    by (simp_all add: attachment_event_def)
  from message_without_text_ignored
         [where sv = example_services and cfg = example_config
            and st = "start [Inr ''Hello''] [Inr 200]", OF this]
  show ?thesis
    by simp
qed

text \<open>
  Claim C3, which the code does not meet. A messaging event whose message carries a quick
  reply also satisfies \<^verbatim>\<open>if (event.message)\<close>, the first branch, so the quick-reply branch of
  line 119 is never reached (\<open>processMessage_message\<close> above: with a message present the
  outcome depends on \<^verbatim>\<open>message.text\<close> alone). Here a quick reply with the text \<^verbatim>\<open>Yes\<close> is
  sent to the generative API and answered through the messaging platform, and its payload is
  not logged.
\<close>

theorem quick_reply_takes_generation_path:
  "deliveries (trace (snd (processMessage example_services example_config quick_reply_event
                            (start [Inr ''Great!''] [Inr 200]))))
     = [AxiosPost messages_url (send_payload example_config (JStr ''42'') (JStr ''Great!''))] \<and>
   length (generations (trace (snd (processMessage example_services example_config
                            quick_reply_event (start [Inr ''Great!''] [Inr 200]))))) = 1 \<and>
   Log INFO ''Quick reply from 42: YES_PAYLOAD''
     \<notin> set (trace (snd (processMessage example_services example_config quick_reply_event
                            (start [Inr ''Great!''] [Inr 200]))))"
  by (simp add: processMessage_def quick_reply_event_def text_path_def exec_def
      generateResponseWithGemini_def try_catch_def call_gemini_def prompt_parts_def
      sendMessageToFacebook_def post_message_def example_services_def start_def
      deliveries_def generations_def logger_def)

section \<open>Postback resolution: properties\<close>

text \<open>
  The table works for \<^verbatim>\<open>GET_STARTED\<close>, and for a string payload that is neither in the table
  nor the name of a member of \<^verbatim>\<open>Object.prototype\<close>.
\<close>

lemma handlePostback_get_started:
  "deliveries (trace (snd (handlePostback sv cfg senderId (JStr ''GET_STARTED'') st)))
     = deliveries (trace st) @ [AxiosPost messages_url (send_payload cfg senderId (JStr welcome_text))]"
  by (simp add: handlePostback_def responses_def send_deliveries welcome_text_def)
     (simp add: deliveries_def)

lemma handlePostback_unknown:
  assumes "payload \<notin> {''GET_STARTED'', ''MENU_INFO'', ''MENU_SUPPORT''}"
    and "payload \<notin> set object_prototype_names"
  shows "deliveries (trace (snd (handlePostback sv cfg senderId (JStr payload) st)))
     = deliveries (trace st) @ [AxiosPost messages_url (send_payload cfg senderId (JStr fallback))]"
  using assms
  by (simp add: handlePostback_def responses_def send_deliveries)
     (simp add: deliveries_def)

text \<open>
  Claim C6, which the code does not meet for every payload. The payload \<^verbatim>\<open>constructor\<close> is
  outside the known set, but \<^verbatim>\<open>responses['constructor']\<close> is the inherited, truthy
  \<^verbatim>\<open>Object\<close> function, so \<^verbatim>\<open>||\<close> does not fall back: what is handed to the delivery call as the
  message text is that function and not the generic fallback string.
\<close>

theorem inherited_name_defeats_fallback:
  "deliveries (trace (snd (handlePostback example_services example_config (JStr ''42'')
                            (JStr ''constructor'') (start [] [Inr 200]))))
     = [AxiosPost messages_url
          (send_payload example_config (JStr ''42'') (JBuiltin ''constructor''))] \<and>
   JBuiltin ''constructor'' \<noteq> JStr fallback"
  by (simp add: handlePostback_def responses_def object_prototype_names_def
      sendMessageToFacebook_def try_catch_def exec_def post_message_def
      example_services_def start_def deliveries_def logger_def)

section \<open>Webhook receiver: properties\<close>

text \<open>
  Claim C4, as the code has it. For a verified request with \<^verbatim>\<open>object\<close> \<^verbatim>\<open>'page'\<close> whose
  \<^verbatim>\<open>entry\<close> value is iterable and whose entries all have an iterable \<^verbatim>\<open>messaging\<close> value, the
  endpoint returns 200 with body \<^verbatim>\<open>OK\<close> after every declared event has been handled in turn:
  handling an event never throws, and an error raised by \<^verbatim>\<open>processMessage\<close> leaves one error
  log line and nothing else behind it.
\<close>

theorem page_events_all_handled:
  assumes "verifyRequestSignature sv cfg req = Inr True"
    and "get_prop (body req) ''object'' = Inr (JStr ''page'')"
    and "get_prop (body req) ''entry'' = Inr v"
    and "iterate ''body.entry'' v = Inr entries"
    and "\<forall>entry \<in> set entries. entry_events entry \<noteq> None"
  shows "post_webhook sv cfg req st =
           (Inr ok_response,
            after_events sv cfg (all_events entries) (logger INFO (received_line sv (body req)) st)) \<and>
         (\<forall>ev s. fst (handle_event sv cfg ev s) = Inr ()) \<and>
         (\<forall>ev s e s'. processMessage sv cfg ev s = (Inl e, s') \<longrightarrow>
            snd (handle_event sv cfg ev s) =
              logger ERROR (''Error processing message: '' @ message e) s')"
  using assms
  by (simp add: post_webhook_verified dispatch_page handle_event_result handle_event_caught)

theorem page_events_all_handled_witness:
  "post_webhook example_services example_config
     (post_request ''sha256=ef449360c3ddda46fab50801d24cf3354a338bac97699792003c2cb607f2bb16''
        body_two_events)
     (start [Inr ''Hello there''] [Inr 200]) =
   (Inr ok_response,
    \<lparr>world = \<lparr>gemini_answers = [], axios_answers = []\<rparr>,
     trace =
       [Log INFO (''Received webhook: '' @ pretty_two_events),
        Log ERROR ''Error processing message: Cannot read properties of undefined (reading 'id')'',
        Log INFO ''Message from 42: Hi'',
        GenerateContent (case template (prompt_parts (JStr ''Hi'')) of Inr p \<Rightarrow> p | Inl e \<Rightarrow> []),
        Log SUCCESS ''Gemini response: Hello there'',
        AxiosPost messages_url (send_payload example_config (JStr ''42'') (JStr ''Hello there'')),
        Log SUCCESS ''Message sent to 42'']\<rparr>)"
proof -
  let ?req = "post_request ''sha256=ef449360c3ddda46fab50801d24cf3354a338bac97699792003c2cb607f2bb16''
                body_two_events"
  have h2: "get_prop (body ?req) ''object'' = Inr (JStr ''page'')"
    and h3: "get_prop (body ?req) ''entry''
               = Inr (JArr [JObj [(''messaging'', JArr [JObj [], text_event])]])"
    and h4: "iterate ''body.entry'' (JArr [JObj [(''messaging'', JArr [JObj [], text_event])]])
               = Inr [JObj [(''messaging'', JArr [JObj [], text_event])]]"
    and h5: "\<forall>entry \<in> set [JObj [(''messaging'', JArr [JObj [], text_event])]].
               entry_events entry \<noteq> None"
    by (simp_all add: post_request_def body_two_events_def iterate_def entry_events_def)
  have ev: "all_events [JObj [(''messaging'', JArr [JObj [], text_event])]] = [JObj [], text_event]"
    by (simp add: entry_events_def iterate_def)
  have rl: "received_line example_services (body ?req) = ''Received webhook: '' @ pretty_two_events"
    by (simp add: received_line_def post_request_def example_services_def example_stringify_def
        body_two_events_def body_empty_entry_def)
  have tr: "after_events example_services example_config [JObj [], text_event]
              (logger INFO (''Received webhook: '' @ pretty_two_events)
                 (start [Inr ''Hello there''] [Inr 200])) =
    \<lparr>world = \<lparr>gemini_answers = [], axios_answers = []\<rparr>,
     trace =
       [Log INFO (''Received webhook: '' @ pretty_two_events),
        Log ERROR ''Error processing message: Cannot read properties of undefined (reading 'id')'',
        Log INFO ''Message from 42: Hi'',
        GenerateContent (case template (prompt_parts (JStr ''Hi'')) of Inr p \<Rightarrow> p | Inl e \<Rightarrow> []),
        Log SUCCESS ''Gemini response: Hello there'',
        AxiosPost messages_url (send_payload example_config (JStr ''42'') (JStr ''Hello there'')),
        Log SUCCESS ''Message sent to 42'']\<rparr>"
    by (simp add: handle_event_def try_catch_def processMessage_def text_event_def
        object_prototype_names_def text_path_def exec_def
        generateResponseWithGemini_def call_gemini_def prompt_parts_def
        sendMessageToFacebook_def post_message_def example_services_def start_def logger_def)
  from page_events_all_handled [OF verified_two_events h2 h3 h4 h5,
         where st = "start [Inr ''Hello there''] [Inr 200]"]
  have "post_webhook example_services example_config ?req (start [Inr ''Hello there''] [Inr 200]) =
          (Inr ok_response,
           after_events example_services example_config
             (all_events [JObj [(''messaging'', JArr [JObj [], text_event])]])
             (logger INFO (received_line example_services (body ?req))
                (start [Inr ''Hello there''] [Inr 200])))"
    by (rule conjunct1)
  then show ?thesis
    unfolding ev rl tr .
qed

text \<open>
  Claim C4 as stated also promises 200 for an entry without a messaging list. The loop over
  \<^verbatim>\<open>entry.messaging\<close> (line 71) is outside the \<^verbatim>\<open>try\<close> of line 72: for the verified body
  \<^verbatim>\<open>{"object":"page","entry":[{}]}\<close> the handler throws and sends no 200.
\<close>

theorem entry_without_messaging_counterexample:
  "verifyRequestSignature example_services example_config
     (post_request ''sha256=0d7654b5d6a6f1602612183452c1b49e76512aaa1c8e18ed54284d444fbc8086''
        body_empty_entry) = Inr True \<and>
   get_prop body_empty_entry ''object'' = Inr (JStr ''page'') \<and>
   fst (post_webhook example_services example_config
          (post_request ''sha256=0d7654b5d6a6f1602612183452c1b49e76512aaa1c8e18ed54284d444fbc8086''
             body_empty_entry)
          (start [] [])) = Inl (TypeError ''entry.messaging is not iterable'')"
  by (simp add: post_webhook_def verifyRequestSignature_def expected_signature_def signed_text_def
      timingSafeEqual_def dispatch_def iterate_def exec_def object_prototype_names_def example_defs)

text \<open>
  Claim C2, as the code has it. An absent or empty \<^verbatim>\<open>x-hub-signature-256\<close> header is answered
  with 403, and so is a header that has the byte length of the expected signature and differs
  from it. A header equal to the expected signature is answered with 200 and body \<^verbatim>\<open>OK\<close> when
  the body is not a page object, or is a page object whose \<^verbatim>\<open>entry\<close> value and every entry's
  \<^verbatim>\<open>messaging\<close> value are iterable. Nothing is said here about a header of another length.
\<close>

theorem signature_gate:
  "(headers req ''x-hub-signature-256'' = None \<or> headers req ''x-hub-signature-256'' = Some [] \<longrightarrow>
      post_webhook sv cfg req st =
        (Inr \<lparr>status = 403, sent = JStr ''Unauthorized''\<rparr>,
         logger ERROR ''Invalid request signature'' st)) \<and>
   (\<forall>x expected.
      headers req ''x-hub-signature-256'' = Some x \<and> x \<noteq> [] \<and>
      expected_signature sv cfg req = Inr expected \<and>
      length x = length expected \<and> x \<noteq> expected \<longrightarrow>
      post_webhook sv cfg req st =
        (Inr \<lparr>status = 403, sent = JStr ''Unauthorized''\<rparr>,
         logger ERROR ''Invalid request signature'' st)) \<and>
   (\<forall>expected v.
      headers req ''x-hub-signature-256'' = Some expected \<and>
      expected_signature sv cfg req = Inr expected \<and>
      get_prop (body req) ''object'' = Inr v \<and> v \<noteq> JStr ''page'' \<longrightarrow>
      fst (post_webhook sv cfg req st) = Inr \<lparr>status = 200, sent = JStr ''OK''\<rparr>) \<and>
   (\<forall>expected v entries.
      headers req ''x-hub-signature-256'' = Some expected \<and>
      expected_signature sv cfg req = Inr expected \<and>
      get_prop (body req) ''object'' = Inr (JStr ''page'') \<and>
      get_prop (body req) ''entry'' = Inr v \<and>
      iterate ''body.entry'' v = Inr entries \<and>
      (\<forall>entry \<in> set entries. entry_events entry \<noteq> None) \<longrightarrow>
      fst (post_webhook sv cfg req st) = Inr \<lparr>status = 200, sent = JStr ''OK''\<rparr>)"
proof (intro conjI allI impI)
  assume "headers req ''x-hub-signature-256'' = None \<or> headers req ''x-hub-signature-256'' = Some []"
  then show "post_webhook sv cfg req st =
        (Inr \<lparr>status = 403, sent = JStr ''Unauthorized''\<rparr>,
         logger ERROR ''Invalid request signature'' st)"
    by (rule post_webhook_rejected [OF verify_absent])
next
  fix x expected
  assume "headers req ''x-hub-signature-256'' = Some x \<and> x \<noteq> [] \<and>
      expected_signature sv cfg req = Inr expected \<and>
      length x = length expected \<and> x \<noteq> expected"
  then have "verifyRequestSignature sv cfg req = Inr False"
    using verify_same_length [of req x sv cfg expected] by simp
  then show "post_webhook sv cfg req st =
        (Inr \<lparr>status = 403, sent = JStr ''Unauthorized''\<rparr>,
         logger ERROR ''Invalid request signature'' st)"
    by (rule post_webhook_rejected)
next
  fix expected v
  assume a: "headers req ''x-hub-signature-256'' = Some expected \<and>
      expected_signature sv cfg req = Inr expected \<and>
      get_prop (body req) ''object'' = Inr v \<and> v \<noteq> JStr ''page''"
  then have "verifyRequestSignature sv cfg req = Inr True"
    using verify_same_length [of req expected sv cfg expected]
      expected_signature_nonempty [of sv cfg req expected] by simp
  then show "fst (post_webhook sv cfg req st) = Inr \<lparr>status = 200, sent = JStr ''OK''\<rparr>"
    using a by (simp add: post_webhook_verified dispatch_other ok_response_def)
next
  fix expected v entries
  assume a: "headers req ''x-hub-signature-256'' = Some expected \<and>
      expected_signature sv cfg req = Inr expected \<and>
      get_prop (body req) ''object'' = Inr (JStr ''page'') \<and>
      get_prop (body req) ''entry'' = Inr v \<and>
      iterate ''body.entry'' v = Inr entries \<and>
      (\<forall>entry \<in> set entries. entry_events entry \<noteq> None)"
  then have "verifyRequestSignature sv cfg req = Inr True"
    using verify_same_length [of req expected sv cfg expected]
      expected_signature_nonempty [of sv cfg req expected] by simp
  then show "fst (post_webhook sv cfg req st) = Inr \<lparr>status = 200, sent = JStr ''OK''\<rparr>"
    using a by (simp add: post_webhook_verified dispatch_page ok_response_def)
qed

theorem signature_gate_witness:
  "fst (post_webhook example_services example_config
          \<lparr>headers = Map.empty, query = Map.empty, body = body_no_entries, rawBody = None\<rparr>
          (start [] [])) = Inr \<lparr>status = 403, sent = JStr ''Unauthorized''\<rparr> \<and>
   fst (post_webhook example_services example_config
          (post_request ''sha256=0000000000000000000000000000000000000000000000000000000000000000''
             body_no_entries)
          (start [] [])) = Inr \<lparr>status = 403, sent = JStr ''Unauthorized''\<rparr> \<and>
   fst (post_webhook example_services example_config
          (post_request ''sha256=f9f60d2fd6f1498ad1636cf26d6916018f8c80c0a4ac67169c9499d510ee1762''
             body_not_page)
          (start [] [])) = Inr \<lparr>status = 200, sent = JStr ''OK''\<rparr> \<and>
   fst (post_webhook example_services example_config
          (post_request ''sha256=e6e9d7a842a48e17f43a34d6125d0d933e2aab92ee37f0993a4d493b50e3d438''
             body_no_entries)
          (start [] [])) = Inr \<lparr>status = 200, sent = JStr ''OK''\<rparr>"
proof -
  let ?absent = "\<lparr>headers = Map.empty, query = Map.empty, body = body_no_entries, rawBody = None\<rparr>"
  let ?zeros = "''sha256=0000000000000000000000000000000000000000000000000000000000000000''"
  let ?other = "''sha256=f9f60d2fd6f1498ad1636cf26d6916018f8c80c0a4ac67169c9499d510ee1762''"
  let ?good = "''sha256=e6e9d7a842a48e17f43a34d6125d0d933e2aab92ee37f0993a4d493b50e3d438''"
  have a: "headers ?absent ''x-hub-signature-256'' = None \<or>
           headers ?absent ''x-hub-signature-256'' = Some []"
    by simp
  have b: "headers (post_request ?zeros body_no_entries) ''x-hub-signature-256'' = Some ?zeros \<and>
           ?zeros \<noteq> [] \<and>
           expected_signature example_services example_config (post_request ?zeros body_no_entries)
             = Inr ?good \<and>
           length ?zeros = length ?good \<and> ?zeros \<noteq> ?good"
    by (simp add: verify_defs example_defs)
  have c: "headers (post_request ?other body_not_page) ''x-hub-signature-256'' = Some ?other \<and>
           expected_signature example_services example_config (post_request ?other body_not_page)
             = Inr ?other \<and>
           get_prop (body (post_request ?other body_not_page)) ''object'' = Inr (JStr ''instagram'') \<and>
           JStr ''instagram'' \<noteq> JStr ''page''"
    by (simp add: verify_defs example_defs object_prototype_names_def)
  have d: "headers (post_request ?good body_no_entries) ''x-hub-signature-256'' = Some ?good \<and>
           expected_signature example_services example_config (post_request ?good body_no_entries)
             = Inr ?good \<and>
           get_prop (body (post_request ?good body_no_entries)) ''object'' = Inr (JStr ''page'') \<and>
           get_prop (body (post_request ?good body_no_entries)) ''entry'' = Inr (JArr []) \<and>
           iterate ''body.entry'' (JArr []) = Inr [] \<and>
           (\<forall>entry \<in> set []. entry_events entry \<noteq> None)"
    by (simp add: verify_defs example_defs iterate_def)
  note g = signature_gate [where sv = example_services and cfg = example_config
                             and st = "start [] []"]
  from g [where req = ?absent] a
  have 1: "fst (post_webhook example_services example_config ?absent (start [] []))
             = Inr \<lparr>status = 403, sent = JStr ''Unauthorized''\<rparr>"
    by simp
  from g [where req = "post_request ?zeros body_no_entries"] b
  have 2: "fst (post_webhook example_services example_config
                  (post_request ?zeros body_no_entries) (start [] []))
             = Inr \<lparr>status = 403, sent = JStr ''Unauthorized''\<rparr>"
    by (metis fst_conv)
  from g [where req = "post_request ?other body_not_page"] c
  have 3: "fst (post_webhook example_services example_config
                  (post_request ?other body_not_page) (start [] []))
             = Inr \<lparr>status = 200, sent = JStr ''OK''\<rparr>"
    by blast
  from g [where req = "post_request ?good body_no_entries"] d
  have 4: "fst (post_webhook example_services example_config
                  (post_request ?good body_no_entries) (start [] []))
             = Inr \<lparr>status = 200, sent = JStr ''OK''\<rparr>"
    by blast
  from 1 2 3 4 show ?thesis by blast
qed

text \<open>
  Claim C2 as stated fails in two places. A header whose length differs from the expected
  signature's makes \<^verbatim>\<open>crypto.timingSafeEqual\<close> throw, so the handler throws instead of
  answering 403. And a request with the right signature whose body is \<^verbatim>\<open>{"object":"page"}\<close>
  makes the loop over \<^verbatim>\<open>body.entry\<close> throw, so no 200 is sent.
\<close>

theorem signature_gate_counterexample:
  "headers (post_request ''sha256=abc'' body_no_entries) ''x-hub-signature-256''
     = Some ''sha256=abc'' \<and>
   expected_signature example_services example_config (post_request ''sha256=abc'' body_no_entries)
     = Inr ''sha256=e6e9d7a842a48e17f43a34d6125d0d933e2aab92ee37f0993a4d493b50e3d438'' \<and>
   fst (post_webhook example_services example_config
          (post_request ''sha256=abc'' body_no_entries) (start [] []))
     = Inl (RangeError ''Input buffers must have the same byte length'') \<and>
   verifyRequestSignature example_services example_config
     (post_request ''sha256=ae958d6f00b134dd32b95a9a76bedaaeb068c0949769358355023f7d1a0c580b''
        body_page_only) = Inr True \<and>
   fst (post_webhook example_services example_config
          (post_request ''sha256=ae958d6f00b134dd32b95a9a76bedaaeb068c0949769358355023f7d1a0c580b''
             body_page_only) (start [] []))
     = Inl (TypeError ''body.entry is not iterable'')"
  by (simp add: post_webhook_def verify_defs dispatch_def iterate_def
      object_prototype_names_def example_defs)

text \<open>
  Claim C1, which the code does not meet. No request reaches the parser that records
  \<^verbatim>\<open>req.rawBody\<close>, so the hash is computed over \<^verbatim>\<open>JSON.stringify(req.body)\<close>. The body
  \<^verbatim>\<open>{"object": "page","entry":[]}\<close> carrying the true signature of its own bytes is rejected;
  carrying the signature of the re-serialized text \<^verbatim>\<open>{"object":"page","entry":[]}\<close> it is
  accepted, and it is still accepted after its one space has been altered to a line feed.
\<close>

theorem raw_body_is_not_what_is_signed:
  "fst (app_post_webhook example_services example_config
          [''x-hub-signature-256'' \<mapsto>
             ''sha256=18edbaac21654c311bb7f2d8cf5cf381bc88368d78dab65c3b5b2f0426a435be'']
          text_no_entries_spaced (start [] []))
     = Inr \<lparr>status = 403, sent = JStr ''Unauthorized''\<rparr> \<and>
   fst (app_post_webhook example_services example_config
          [''x-hub-signature-256'' \<mapsto>
             ''sha256=e6e9d7a842a48e17f43a34d6125d0d933e2aab92ee37f0993a4d493b50e3d438'']
          text_no_entries_spaced (start [] []))
     = Inr \<lparr>status = 200, sent = JStr ''OK''\<rparr> \<and>
   fst (app_post_webhook example_services example_config
          [''x-hub-signature-256'' \<mapsto>
             ''sha256=e6e9d7a842a48e17f43a34d6125d0d933e2aab92ee37f0993a4d493b50e3d438'']
          text_no_entries_newline (start [] []))
     = Inr \<lparr>status = 200, sent = JStr ''OK''\<rparr> \<and>
   text_no_entries_spaced \<noteq> text_no_entries_newline"
  by (simp add: app_post_webhook_def post_webhook_def verify_defs dispatch_def iterate_def
      exec_def ok_response_def object_prototype_names_def example_defs)

section \<open>Reply generation: properties\<close>

text \<open>
  Claim C5. For a text-message event (sender, recipient, a message with a truthy text, all
  of them printable) whose call to the generative API fails, the generation function returns
  the fixed apology string, handling the event ends normally, and the one delivery made for
  it carries the apology to the sender. The generation function never throws, whatever its
  input; and a verified page request containing the event is answered with 200 and body
  \<^verbatim>\<open>OK\<close>.
\<close>

theorem generation_failure_apology:
  assumes "get_prop event ''sender'' = Inr sender" and "get_prop sender ''id'' = Inr senderId"
    and "get_prop event ''recipient'' = Inr recipient"
    and "get_prop recipient ''id'' = Inr recipientId"
    and "get_prop event ''message'' = Inr event_message" and "truthy event_message"
    and "get_prop event_message ''text'' = Inr userMessage" and "truthy userMessage"
    and "template [Lit ''Message from '', Sub senderId, Lit '': '', Sub userMessage] = Inr line"
    and "template (prompt_parts userMessage) = Inr prompt"
    and "fst (generateContent sv prompt (world st)) = Inl error"
  shows "fst (generateResponseWithGemini sv userMessage (logger INFO line st)) = Inr (JStr apology) \<and>
         fst (handle_event sv cfg event st) = Inr () \<and>
         deliveries (trace (snd (handle_event sv cfg event st))) =
           deliveries (trace st) @
             [AxiosPost messages_url (send_payload cfg senderId (JStr apology))] \<and>
         (\<forall>um s. \<not> isl (fst (generateResponseWithGemini sv um s))) \<and>
         (\<forall>req s v entries.
            verifyRequestSignature sv cfg req = Inr True \<and>
            get_prop (body req) ''object'' = Inr (JStr ''page'') \<and>
            get_prop (body req) ''entry'' = Inr v \<and>
            iterate ''body.entry'' v = Inr entries \<and>
            (\<forall>entry \<in> set entries. entry_events entry \<noteq> None) \<and>
            event \<in> set (all_events entries) \<longrightarrow>
            fst (post_webhook sv cfg req s) = Inr \<lparr>status = 200, sent = JStr ''OK''\<rparr>)"
proof (intro conjI allI impI)
  have g: "fst (generateContent sv prompt (world (logger INFO line st))) = Inl error"
    using assms(11) by simp
  show "fst (generateResponseWithGemini sv userMessage (logger INFO line st)) = Inr (JStr apology)"
    by (simp add: gen_failure [OF assms(10) g])
  show "fst (handle_event sv cfg event st) = Inr ()"
    by (rule handle_event_result)
  have p: "processMessage sv cfg event st = text_path sv cfg senderId userMessage st"
    using processMessage_message [OF assms(1-7)] assms(8) by simp
  have f: "fst (text_path sv cfg senderId userMessage st) = Inr ()"
    and d: "deliveries (trace (snd (text_path sv cfg senderId userMessage st))) =
              deliveries (trace st) @
                [AxiosPost messages_url (send_payload cfg senderId (JStr apology))]"
    using text_path_failure [OF assms(9-11)] by simp_all
  obtain st' where t: "text_path sv cfg senderId userMessage st = (Inr (), st')"
    using f by (cases "text_path sv cfg senderId userMessage st") auto
  have "handle_event sv cfg event st = (Inr (), st')"
    using p t by (simp add: handle_event_passed)
  then show "deliveries (trace (snd (handle_event sv cfg event st))) =
           deliveries (trace st) @
             [AxiosPost messages_url (send_payload cfg senderId (JStr apology))]"
    using d t by simp
next
  fix um s
  show "\<not> isl (fst (generateResponseWithGemini sv um s))"
    by (rule gen_result)
next
  fix req s v entries
  assume "verifyRequestSignature sv cfg req = Inr True \<and>
            get_prop (body req) ''object'' = Inr (JStr ''page'') \<and>
            get_prop (body req) ''entry'' = Inr v \<and>
            iterate ''body.entry'' v = Inr entries \<and>
            (\<forall>entry \<in> set entries. entry_events entry \<noteq> None) \<and>
            event \<in> set (all_events entries)"
  then show "fst (post_webhook sv cfg req s) = Inr \<lparr>status = 200, sent = JStr ''OK''\<rparr>"
    by (simp add: post_webhook_verified dispatch_page ok_response_def)
qed

theorem generation_failure_apology_witness:
  "deliveries (trace (snd (handle_event example_services example_config text_event
                             (start [Inl (ServiceError ''503 Service Unavailable'')] [Inr 200]))))
     = [AxiosPost messages_url
          (send_payload example_config (JStr ''42'')
             (JStr (''Thank you for your message. I'' @ [CHR 0x27] @
                    ''m having technical difficulties. Please try again later.'')))] \<and>
   fst (post_webhook example_services example_config
          (post_request ''sha256=ef449360c3ddda46fab50801d24cf3354a338bac97699792003c2cb607f2bb16''
             body_two_events)
          (start [Inl (ServiceError ''503 Service Unavailable'')] [Inr 200]))
     = Inr \<lparr>status = 200, sent = JStr ''OK''\<rparr>"
proof -
  let ?st = "start [Inl (ServiceError ''503 Service Unavailable'')] [Inr 200]"
  let ?req = "post_request ''sha256=ef449360c3ddda46fab50801d24cf3354a338bac97699792003c2cb607f2bb16''
                body_two_events"
  let ?prompt = "case template (prompt_parts (JStr ''Hi'')) of Inr p \<Rightarrow> p | Inl e \<Rightarrow> []"
  have h: "get_prop text_event ''sender'' = Inr (JObj [(''id'', JStr ''42'')])"
    "get_prop (JObj [(''id'', JStr ''42'')]) ''id'' = Inr (JStr ''42'')"
    "get_prop text_event ''recipient'' = Inr (JObj [(''id'', JStr ''7'')])"
    "get_prop (JObj [(''id'', JStr ''7'')]) ''id'' = Inr (JStr ''7'')"
    "get_prop text_event ''message'' = Inr (JObj [(''text'', JStr ''Hi'')])"
    "truthy (JObj [(''text'', JStr ''Hi'')])"
    "get_prop (JObj [(''text'', JStr ''Hi'')]) ''text'' = Inr (JStr ''Hi'')"
    "truthy (JStr ''Hi'')"
    "template [Lit ''Message from '', Sub (JStr ''42''), Lit '': '', Sub (JStr ''Hi'')]
       = Inr ''Message from 42: Hi''"
    "template (prompt_parts (JStr ''Hi'')) = Inr ?prompt"
    "fst (generateContent example_services ?prompt (world ?st))
       = Inl (ServiceError ''503 Service Unavailable'')"
    by (simp_all add: text_event_def prompt_parts_def example_services_def start_def)
  have r: "verifyRequestSignature example_services example_config ?req = Inr True \<and>
           get_prop (body ?req) ''object'' = Inr (JStr ''page'') \<and>
           get_prop (body ?req) ''entry''
             = Inr (JArr [JObj [(''messaging'', JArr [JObj [], text_event])]]) \<and>
           iterate ''body.entry'' (JArr [JObj [(''messaging'', JArr [JObj [], text_event])]])
             = Inr [JObj [(''messaging'', JArr [JObj [], text_event])]] \<and>
           (\<forall>entry \<in> set [JObj [(''messaging'', JArr [JObj [], text_event])]].
              entry_events entry \<noteq> None) \<and>
           text_event \<in> set (all_events [JObj [(''messaging'', JArr [JObj [], text_event])]])"
    by (simp add: verified_two_events)
       (simp add: post_request_def body_two_events_def iterate_def entry_events_def)
  note t = generation_failure_apology [OF h, where cfg = example_config]
  from t have 1: "deliveries (trace (snd (handle_event example_services example_config text_event ?st)))
     = deliveries (trace ?st) @
         [AxiosPost messages_url (send_payload example_config (JStr ''42'') (JStr apology))]"
    by blast
  from t r have 2: "fst (post_webhook example_services example_config ?req ?st)
     = Inr \<lparr>status = 200, sent = JStr ''OK''\<rparr>"
    by blast
  from 1 2 show ?thesis
    by (simp add: apology_def start_def deliveries_def)
qed

end
